theory Spec2Isabelle
  imports Complex_Main
begin

section \<open>Python values of \<open>src/preprocessing.py\<close>\<close>

text \<open>
  The module is a class \<open>AudioPreprocessor\<close> over two libraries, librosa and numpy.
  Conventions of the embedding:
  \<^item> a one-dimensional \<open>np.ndarray\<close> of samples is a \<open>real list\<close>; a Python \<open>float\<close> is the
    real number it denotes, and \<open>*\<close>, \<open>+\<close>, \<open>/\<close> on floats are the exact operations.
    Rounding, NaN and the infinities are outside the model;
  \<^item> a Python \<open>int\<close> is an \<open>int\<close>, a \<open>str\<close> is a \<open>string\<close>;
  \<^item> a raised exception is a value \<open>PyExn c m\<close>: the name \<open>c\<close> of its class and the text
    \<open>m\<close> that \<open>str(e)\<close> gives; a call returns \<open>Inl\<close> of the exception or \<open>Inr\<close> of its
    result.
\<close>

datatype pyexn = PyExn (exn_class: string) (exn_str: string)

abbreviation ValueError :: "string \<Rightarrow> pyexn" where
  "ValueError m \<equiv> PyExn ''ValueError'' m"

type_synonym signal = "real list"

text \<open>
  The three librosa functions the module calls. Their code is not part of the
  repository, so they are parameters of every operation:
  \<^item> \<open>librosa_load filepath sr duration\<close> is \<open>librosa.load(filepath, sr=sr, duration=duration)\<close>,
    reduced to the samples (the module drops the rate that comes back with them);
  \<^item> \<open>librosa_time_stretch y rate\<close> is \<open>librosa.effects.time_stretch(y, rate=rate)\<close>;
  \<^item> \<open>librosa_pitch_shift y sr n_steps\<close> is
    \<open>librosa.effects.pitch_shift(y, sr=sr, n_steps=n_steps)\<close>.
\<close>

record backend =
  librosa_load :: "string \<Rightarrow> int \<Rightarrow> real \<Rightarrow> pyexn + signal"
  librosa_time_stretch :: "signal \<Rightarrow> real \<Rightarrow> pyexn + signal"
  librosa_pitch_shift :: "signal \<Rightarrow> int \<Rightarrow> int \<Rightarrow> pyexn + signal"

text \<open>\<open>int(x)\<close> on a float: truncation toward zero.\<close>

definition py_int :: "real \<Rightarrow> int" where
  "py_int x = (if 0 \<le> x then \<lfloor>x\<rfloor> else \<lceil>x\<rceil>)"

text \<open>\<open>y[:n]\<close>: the first \<open>n\<close> elements, and for a negative \<open>n\<close> all but the last \<open>-n\<close>.\<close>

definition py_slice_upto :: "'a list \<Rightarrow> int \<Rightarrow> 'a list" where
  "py_slice_upto y n =
     (if 0 \<le> n then take (nat n) y else take (nat (int (length y) + n)) y)"

text \<open>\<open>np.pad(y, (0, n), mode='constant')\<close>: \<open>n\<close> zeros after the samples.\<close>

definition np_pad_right :: "signal \<Rightarrow> int \<Rightarrow> signal" where
  "np_pad_right y n = y @ replicate (nat n) 0"

text \<open>\<open>np.max\<close> of a one-dimensional array; numpy raises on an array of size zero.\<close>

fun np_max :: "real list \<Rightarrow> pyexn + real" where
  "np_max [] =
     Inl (ValueError ''zero-size array to reduction operation maximum which has no identity'')"
| "np_max (x # xs) = Inr (fold max xs x)"

section \<open>The class \<open>AudioPreprocessor\<close>\<close>

record AudioPreprocessor =
  sr :: int

definition default_sr :: int where
  "default_sr = 44100"

definition init :: "int \<Rightarrow> AudioPreprocessor" where
  "init s = \<lparr>sr = s\<rparr>"

definition default_duration :: real where
  "default_duration = 2"

text \<open>
  \<open>load_audio\<close>: every exception of the \<open>try\<close> block is caught and replaced by a
  \<open>ValueError\<close> whose text ends with \<open>str(e)\<close>. On reals neither \<open>int\<close> nor the padding can
  raise, so the only exception of the block is librosa's.
\<close>

definition load_audio :: "backend \<Rightarrow> AudioPreprocessor \<Rightarrow> string \<Rightarrow> real \<Rightarrow> pyexn + signal" where
  "load_audio B self filepath duration =
     (case librosa_load B filepath (sr self) duration of
        Inl e \<Rightarrow> Inl (ValueError (''Error loading audio: '' @ exn_str e))
      | Inr y \<Rightarrow>
          (let target_length = py_int (of_int (sr self) * duration) in
           if int (length y) < target_length
           then Inr (np_pad_right y (target_length - int (length y)))
           else Inr (py_slice_upto y target_length)))"

definition time_stretch :: "backend \<Rightarrow> AudioPreprocessor \<Rightarrow> signal \<Rightarrow> real \<Rightarrow> pyexn + signal" where
  "time_stretch B self y rate = librosa_time_stretch B y rate"

definition pitch_shift :: "backend \<Rightarrow> AudioPreprocessor \<Rightarrow> signal \<Rightarrow> int \<Rightarrow> pyexn + signal" where
  "pitch_shift B self y n_steps = librosa_pitch_shift B y (sr self) n_steps"

definition apply_preprocessing ::
  "backend \<Rightarrow> AudioPreprocessor \<Rightarrow> signal \<Rightarrow> string \<Rightarrow> real \<Rightarrow> int \<Rightarrow> pyexn + signal" where
  "apply_preprocessing B self y technique time_stretch_rate pitch_shift_steps =
     (if technique = ''none'' then Inr y
      else if technique = ''time_stretch'' then time_stretch B self y time_stretch_rate
      else if technique = ''pitch_shift'' then pitch_shift B self y pitch_shift_steps
      else if technique = ''pitch_then_time'' then
        (case pitch_shift B self y pitch_shift_steps of
           Inl e \<Rightarrow> Inl e
         | Inr y1 \<Rightarrow> time_stretch B self y1 time_stretch_rate)
      else if technique = ''time_then_pitch'' then
        (case time_stretch B self y time_stretch_rate of
           Inl e \<Rightarrow> Inl e
         | Inr y1 \<Rightarrow> pitch_shift B self y1 pitch_shift_steps)
      else Inl (ValueError (''Unknown technique: '' @ technique)))"

definition default_time_stretch_rate :: real where
  "default_time_stretch_rate = 1"

definition default_pitch_shift_steps :: int where
  "default_pitch_shift_steps = 0"

definition normalize_audio :: "AudioPreprocessor \<Rightarrow> signal \<Rightarrow> pyexn + signal" where
  "normalize_audio self y =
     (case np_max (map abs y) of
        Inl e \<Rightarrow> Inl e
      | Inr peak \<Rightarrow> Inr (map (\<lambda>v. v / (peak + 1 / 10 ^ 8)) y))"

section \<open>Vocabulary of the specification\<close>


definition is_UnknownTechniqueError :: "pyexn \<Rightarrow> bool" where
  "is_UnknownTechniqueError e =
     (exn_class e = ''ValueError'' \<and> take 19 (exn_str e) = ''Unknown technique: '')"

text \<open>One call after another, the second on the result of the first; an exception of the
  first ends the chain.\<close>

definition and_then :: "pyexn + 'a \<Rightarrow> ('a \<Rightarrow> pyexn + 'b) \<Rightarrow> pyexn + 'b" where
  "and_then r f = (case r of Inl e \<Rightarrow> Inl e | Inr v \<Rightarrow> f v)"

definition valid_techniques :: "string list" where
  "valid_techniques =
     [''none'', ''time_stretch'', ''pitch_shift'', ''pitch_then_time'', ''time_then_pitch'']"

section \<open>Two backends for concrete runs\<close>

text \<open>
  \<open>passthrough_backend\<close> decodes every file but \<open>missing.wav\<close> to the same three samples,
  rejects a stretch rate at or below zero and otherwise leaves a signal as it is.
  \<open>silent_backend\<close> checks nothing: it decodes to silence and answers every request with
  silence of the input's length.
\<close>

definition passthrough_backend :: backend where
  "passthrough_backend =
     \<lparr>librosa_load = (\<lambda>filepath s d.
          if filepath = ''missing.wav''
          then Inl (PyExn ''FileNotFoundError'' ''No such file or directory: missing.wav'')
          else Inr [1 / 2, - 1 / 4, 1 / 8]),
      librosa_time_stretch = (\<lambda>y rate.
          if rate \<le> 0
          then Inl (PyExn ''ParameterError'' ''rate must be a positive number'')
          else Inr y),
      librosa_pitch_shift = (\<lambda>y s n. Inr y)\<rparr>"

definition silent_backend :: backend where
  "silent_backend =
     \<lparr>librosa_load = (\<lambda>filepath s d. Inr (replicate 3 0)),
      librosa_time_stretch = (\<lambda>y rate. Inr (replicate (length y) 0)),
      librosa_pitch_shift = (\<lambda>y s n. Inr (replicate (length y) 0))\<rparr>"

section \<open>The dispatch of \<open>apply_preprocessing\<close>\<close>

text \<open>
  C8. With the technique \<open>'none'\<close>, \<open>apply_preprocessing\<close> returns the signal it was given,
  whatever the rate and the number of steps, and whatever the backend.
\<close>

theorem apply_preprocessing_none:
  "apply_preprocessing B self y ''none'' time_stretch_rate pitch_shift_steps = Inr y"
  by (simp add: apply_preprocessing_def)

text \<open>
  C2. \<open>'pitch_then_time'\<close> is \<open>pitch_shift\<close> followed by \<open>time_stretch\<close> on its result, and
  \<open>'time_then_pitch'\<close> is \<open>time_stretch\<close> followed by \<open>pitch_shift\<close> on its result: the same
  two operations in opposite orders. An exception of the first operation is the result.
\<close>

theorem apply_preprocessing_cascades:
  "apply_preprocessing B self y ''pitch_then_time'' rate steps =
     and_then (pitch_shift B self y steps) (\<lambda>y1. time_stretch B self y1 rate)
   \<and> apply_preprocessing B self y ''time_then_pitch'' rate steps =
     and_then (time_stretch B self y rate) (\<lambda>y1. pitch_shift B self y1 steps)"
  by (simp add: apply_preprocessing_def and_then_def)

text \<open>
  C5. A technique that is none of the five literals makes \<open>apply_preprocessing\<close> raise the
  unknown-technique error, a \<open>ValueError\<close> with the text \<open>Unknown technique: \<close> and the
  technique; the result is never a signal, so never the input handed back.
\<close>

theorem apply_preprocessing_unknown:
  assumes "technique \<notin> set valid_techniques"
  shows "apply_preprocessing B self y technique rate steps =
           Inl (ValueError (''Unknown technique: '' @ technique))
         \<and> is_UnknownTechniqueError (ValueError (''Unknown technique: '' @ technique))
         \<and> apply_preprocessing B self y technique rate steps \<noteq> Inr y"
  using assms
  by (simp add: apply_preprocessing_def valid_techniques_def is_UnknownTechniqueError_def)

theorem apply_preprocessing_unknown_witness:
  "''bogus_value'' \<notin> set valid_techniques
   \<and> apply_preprocessing silent_backend (init 44100) [1, 2] ''bogus_value'' 1 0 =
       Inl (ValueError ''Unknown technique: bogus_value'')"
proof -
  have h: "''bogus_value'' \<notin> set valid_techniques"
    by (simp add: valid_techniques_def)
  show ?thesis
    using h apply_preprocessing_unknown [OF h, of silent_backend "init 44100" "[1, 2]" 1 0]
    by simp
qed

section \<open>The wrappers \<open>time_stretch\<close> and \<open>pitch_shift\<close>\<close>

lemma time_stretch_error_is_backend:
  "time_stretch B self y rate = Inl e \<longleftrightarrow> librosa_time_stretch B y rate = Inl e"
  by (simp add: time_stretch_def)

lemma pitch_shift_error_is_backend:
  "pitch_shift B self y n_steps = Inl e \<longleftrightarrow> librosa_pitch_shift B y (sr self) n_steps = Inl e"
  by (simp add: pitch_shift_def)



section \<open>The cascades at rate 1 and 0 steps\<close>




section \<open>\<open>load_audio\<close>\<close>





lemma load_audio_can_return_empty:
  "load_audio passthrough_backend (init 44100) ''a.wav'' (1 / 100000) = Inr []"
proof -
  have "py_int (44100 * (1 / 100000)) = 0"
    by (simp add: py_int_def)
  then show ?thesis
    by (simp add: load_audio_def passthrough_backend_def init_def py_slice_upto_def)
qed









section \<open>\<open>normalize_audio\<close>\<close>

lemma np_max_nonempty: "xs \<noteq> [] \<Longrightarrow> np_max xs = Inr (Max (set xs))"
  by (cases xs) (simp_all add: Max.set_eq_fold [symmetric])

lemma normalize_audio_nonempty:
  assumes "y \<noteq> []"
  shows "normalize_audio self y = Inr (map (\<lambda>v. v / (Max (abs ` set y) + 1 / 10 ^ 8)) y)"
  using assms by (simp add: normalize_audio_def np_max_nonempty)



text \<open>
  C3, as the claim states it, fails on the signal with no samples: dividing every sample
  of it would give the empty signal, but \<open>np.max\<close> raises before any division. Such a
  signal is what \<open>load_audio\<close> returns for a duration below one sample
  (\<open>load_audio_can_return_empty\<close>).
\<close>

theorem normalize_audio_empty_raises:
  "normalize_audio (init 44100) [] =
     Inl (ValueError ''zero-size array to reduction operation maximum which has no identity'')
   \<and> normalize_audio (init 44100) [] \<noteq> Inr []"
  by (simp add: normalize_audio_def)

text \<open>
  C3, amended. For every signal \<open>y\<close> with at least one sample, \<open>normalize_audio\<close> returns
  the signal of the same length whose every sample is the sample of \<open>y\<close> at that place
  divided by the largest absolute sample of \<open>y\<close> plus \<open>1e-8\<close>.
\<close>

theorem normalize_audio_divides:
  assumes "y \<noteq> []"
  shows "\<exists>z. normalize_audio self y = Inr z \<and> length z = length y
           \<and> (\<forall>i<length y. z ! i = y ! i / (Max (abs ` set y) + 1 / 10 ^ 8))"
  using assms by (simp add: normalize_audio_nonempty)

theorem normalize_audio_divides_witness:
  "[1, - 2 :: real] \<noteq> []
   \<and> (\<exists>z. normalize_audio (init 44100) [1, - 2] = Inr z \<and> length z = 2
          \<and> z ! 0 = 1 / (2 + 1 / 10 ^ 8) \<and> z ! 1 = - 2 / (2 + 1 / 10 ^ 8))"
proof -
  have h: "[1, - 2 :: real] \<noteq> []" by simp
  have m: "Max (abs ` set [1, - 2 :: real]) = 2" by simp
  from normalize_audio_divides [OF h, of "init 44100"]
  obtain z where z: "normalize_audio (init 44100) [1, - 2] = Inr z" "length z = 2"
    "\<forall>i<2. z ! i = [1, - 2] ! i / (2 + 1 / 10 ^ 8)"
    unfolding m by auto
  from z(3) [rule_format, of 0] z(3) [rule_format, of 1]
  have "z ! 0 = 1 / (2 + 1 / 10 ^ 8)" "z ! 1 = - 2 / (2 + 1 / 10 ^ 8)"
    by simp_all
  with z(1,2) h show ?thesis by blast
qed







end
